theory Spec2Isabelle
  imports Main "HOL-Library.Word" "HOL-Library.Sublist"
begin

section \<open>JavaScript values, strings and thrown values\<close>

text \<open>
  Strings are \<^typ>\<open>string\<close>. The non-ASCII literals of the sources are written as the
  bytes of their UTF-8 encoding; the page only concatenates them, compares them and tests
  them for emptiness, which reads the same on UTF-8 bytes as on UTF-16 code units.
\<close>

datatype jsvalue =
    JUndefined
  | JNull
  | JBool bool
  | JNumber int
  | JString string
  | JObject "(string \<times> jsvalue) list"

text \<open>Property access \<open>obj[k]\<close>: a missing property reads as \<open>undefined\<close>.\<close>

definition js_get :: "(string \<times> jsvalue) list \<Rightarrow> string \<Rightarrow> jsvalue" where
  "js_get props k = (case map_of props k of None \<Rightarrow> JUndefined | Some v \<Rightarrow> v)"

text \<open>
  What a \<open>catch\<close> clause can receive: an \<open>Error\<close> object with its message, or any other
  value (the \<open>ProgressEvent\<close> that \<open>reader.onerror\<close> passes to \<open>reject\<close> is one).
\<close>

datatype thrown = ErrorObject string | OtherThrown

text \<open>Truthiness of a value of type \<open>string | null\<close>: \<open>null\<close> and \<open>""\<close> are falsy.\<close>

fun truthy :: "string option \<Rightarrow> bool" where
  "truthy None = False"
| "truthy (Some s) = (s \<noteq> [])"


section \<open>The zod schemas\<close>

datatype zod_issue = invalid_type | too_small string | invalid_enum_value

datatype zod_type =
    ZString                  \<comment> \<open>\<open>z.string()\<close>\<close>
  | ZStringMin nat string    \<comment> \<open>\<open>z.string().min(n, {message})\<close>\<close>
  | ZEnum "string list"      \<comment> \<open>\<open>z.enum([...])\<close>\<close>

fun zod_check :: "zod_type \<Rightarrow> jsvalue \<Rightarrow> zod_issue list" where
  "zod_check ZString (JString s) = []"
| "zod_check ZString _ = [invalid_type]"
| "zod_check (ZStringMin n msg) (JString s) = (if length s < n then [too_small msg] else [])"
| "zod_check (ZStringMin n msg) _ = [invalid_type]"
| "zod_check (ZEnum vs) (JString s) = (if s \<in> set vs then [] else [invalid_enum_value])"
| "zod_check (ZEnum vs) _ = [invalid_type]"

text \<open>
  \<open>z.object(shape).safeParse(v)\<close>: every key of the shape is read from the object and
  checked; the issues carry the key as their path; unknown keys are stripped. The only
  \<open>min\<close> of the sources is \<open>min(1)\<close>, which asks for a string that is not empty, in
  bytes as in code units.
\<close>

definition zod_object_parse ::
  "(string \<times> zod_type) list \<Rightarrow> jsvalue \<Rightarrow> (string \<times> zod_issue) list + (string \<times> jsvalue) list"
where
  "zod_object_parse shape v =
     (case v of
        JObject props \<Rightarrow>
          (let issues = concat (map (\<lambda>(k, t). map (Pair k) (zod_check t (js_get props k))) shape)
           in if issues = [] then Inr (map (\<lambda>(k, t). (k, js_get props k)) shape)
              else Inl issues)
      | _ \<Rightarrow> Inl [([], invalid_type)])"

definition gemini_models :: "string list" where
  "gemini_models = [''gemini-2.5-pro'', ''gemini-2.5-flash'']"

definition msg_api_key_required :: string where
  "msg_api_key_required =
     ''Google Gemini API '' @
     [CHR 0xE5, CHR 0xAF, CHR 0x86, CHR 0xE9, CHR 0x92, CHR 0xA5, CHR 0xE6, CHR 0x98, CHR 0xAF,
      CHR 0xE5, CHR 0xBF, CHR 0x85, CHR 0xE9, CHR 0x9C, CHR 0x80, CHR 0xE7, CHR 0x9A, CHR 0x84,
      CHR 0xE3, CHR 0x80, CHR 0x82]"

text \<open>The form schema of the page.\<close>

definition formSchema :: "(string \<times> zod_type) list" where
  "formSchema =
     [(''apiKey'', ZStringMin 1 msg_api_key_required),
      (''model'', ZEnum gemini_models)]"


section \<open>The page: state\<close>

type_synonym byte = "8 word"

record js_file =
  file_name :: string
  file_type :: string
  file_bytes :: "byte list"

record toast_props =
  variant :: string
  title :: string
  description :: string

record form_values =
  values_apiKey :: string
  values_model :: string

record AnalyzeKLSEReportInput =
  reportDataUri :: string
  geminiModel :: string
  apiKey :: string

record AnalyzeKLSEReportOutput =
  blogPostHtml :: string

text \<open>
  The state of \<open>KLSEAnalyzerPage\<close>: the five \<open>useState\<close> cells (\<open>file\<close> is a keyword
  of Isabelle, so that cell is \<open>cur_file\<close>), the value of the file
  input behind \<open>fileInputRef\<close> (\<open>None\<close> while the input is not mounted and the ref is
  \<open>null\<close>), the values and errors of the form, the effects the handlers have produced so
  far (toasts, \<open>console.error\<close> lines, calls of \<open>analyzeKLSEReport\<close>), the interval
  timer of the running submission and the submission that is awaiting its promises.
\<close>

record ui_state =
  cur_file :: "js_file option"
  isLoading :: bool
  progress :: int
  analysisResult :: "string option"
  error :: "string option"
  fileInputRef :: "string option"
  form :: form_values
  form_errors :: "(string \<times> zod_issue) list"
  toasts :: "toast_props list"
  console_errors :: "thrown list"
  requests :: "AnalyzeKLSEReportInput list"
  progressInterval :: bool
  pending :: "(js_file \<times> form_values) option"

definition defaultValues :: form_values where
  "defaultValues = \<lparr>values_apiKey = '''', values_model = ''gemini-2.5-flash''\<rparr>"

definition initial_state :: ui_state where
  "initial_state =
     \<lparr>cur_file = None, isLoading = False, progress = 0, analysisResult = None, error = None,
      fileInputRef = Some '''', form = defaultValues, form_errors = [],
      toasts = [], console_errors = [], requests = [],
      progressInterval = False, pending = None\<rparr>"

definition toast :: "toast_props \<Rightarrow> ui_state \<Rightarrow> ui_state" where
  "toast t st = st\<lparr>toasts := toasts st @ [t]\<rparr>"


section \<open>The page: selecting a file\<close>

definition toast_invalid_type :: toast_props where
  "toast_invalid_type =
     \<lparr>variant = ''destructive'',
      title = [CHR 0xE6, CHR 0x96, CHR 0x87, CHR 0xE4, CHR 0xBB, CHR 0xB6, CHR 0xE7, CHR 0xB1,
               CHR 0xBB, CHR 0xE5, CHR 0x9E, CHR 0x8B, CHR 0xE6, CHR 0x97, CHR 0xA0, CHR 0xE6,
               CHR 0x95, CHR 0x88],
      description =
              [CHR 0xE8, CHR 0xAF, CHR 0xB7, CHR 0xE4, CHR 0xB8, CHR 0x8A, CHR 0xE4, CHR 0xBC,
               CHR 0xA0] @ '' PDF '' @
              [CHR 0xE6, CHR 0xA0, CHR 0xBC, CHR 0xE5, CHR 0xBC, CHR 0x8F, CHR 0xE7, CHR 0x9A,
               CHR 0x84, CHR 0xE6, CHR 0x96, CHR 0x87, CHR 0xE4, CHR 0xBB, CHR 0xB6, CHR 0xE3,
               CHR 0x80, CHR 0x82]\<rparr>"

definition handleFileSelect :: "js_file \<Rightarrow> ui_state \<Rightarrow> ui_state" where
  "handleFileSelect selectedFile st =
     (if file_type selectedFile \<noteq> ''application/pdf''
      then (toast toast_invalid_type st)\<lparr>cur_file := None\<rparr>
      else st\<lparr>error := None, cur_file := Some selectedFile\<rparr>)"

text \<open>The button that removes the selected file (inline \<open>onClick\<close> of the form view).\<close>

definition removeFile :: "ui_state \<Rightarrow> ui_state" where
  "removeFile st =
     st\<lparr>cur_file := None,
        fileInputRef := (case fileInputRef st of None \<Rightarrow> None | Some _ \<Rightarrow> Some '''')\<rparr>"


section \<open>The page: resetting\<close>

definition resetState :: "ui_state \<Rightarrow> ui_state" where
  "resetState st =
     st\<lparr>cur_file := None, analysisResult := None, error := None, isLoading := False,
        progress := 0,
        fileInputRef := (case fileInputRef st of None \<Rightarrow> None | Some _ \<Rightarrow> Some ''''),
        form := defaultValues, form_errors := []\<rparr>"


section \<open>The page: encoding the file\<close>

text \<open>
  Modelled from the spec: \<open>FileReader.readAsDataURL\<close> is the browser's, not the
  repository's, and no source of it is at hand. The spec says that the component "converts
  file bytes to a base64 data URI" through "an asynchronous read operation that may fail";
  the functions below write that out after the File API (a \<open>data:\<close> URL with the blob's
  type, then \<open>;base64,\<close>, then the content) and RFC 4648, section 4 (the standard
  alphabet, \<open>=\<close> padding). Whether a read succeeds is the environment's choice.
\<close>

definition b64_char :: "nat \<Rightarrow> char" where
  "b64_char n =
     (if n < 26 then char_of (65 + n)
      else if n < 52 then char_of (71 + n)
      else if n < 62 then char_of (n - 4)
      else if n = 62 then CHR ''+''
      else CHR ''/'')"

fun base64_encode :: "byte list \<Rightarrow> string" where
  "base64_encode [] = []"
| "base64_encode [a] =
     [b64_char (unat a div 4), b64_char (unat a mod 4 * 16), CHR ''='', CHR ''='']"
| "base64_encode [a, b] =
     [b64_char (unat a div 4), b64_char (unat a mod 4 * 16 + unat b div 16),
      b64_char (unat b mod 16 * 4), CHR ''='']"
| "base64_encode (a # b # c # rest) =
     [b64_char (unat a div 4), b64_char (unat a mod 4 * 16 + unat b div 16),
      b64_char (unat b mod 16 * 4 + unat c div 64), b64_char (unat c mod 64)]
     @ base64_encode rest"

definition readAsDataURL :: "js_file \<Rightarrow> string" where
  "readAsDataURL f = ''data:'' @ file_type f @ '';base64,'' @ base64_encode (file_bytes f)"

text \<open>
  The reader of a data URI (RFC 2397) and of its payload (RFC 4648): what "decodes back
  to the original bytes" is measured with. A payload whose length is not a multiple of
  four, or with a character outside the alphabet, does not decode.
\<close>

definition b64_value :: "char \<Rightarrow> nat option" where
  "b64_value c =
     (let k = (of_char c :: nat)
      in if 65 \<le> k \<and> k \<le> 90 then Some (k - 65)
         else if 97 \<le> k \<and> k \<le> 122 then Some (k - 71)
         else if 48 \<le> k \<and> k \<le> 57 then Some (k + 4)
         else if k = 43 then Some 62
         else if k = 47 then Some 63
         else None)"

fun base64_decode :: "string \<Rightarrow> byte list option" where
  "base64_decode [] = Some []"
| "base64_decode (c0 # c1 # c2 # c3 # rest) =
     (if rest = [] \<and> c3 = CHR ''='' then
        (if c2 = CHR ''='' then
           (case (b64_value c0, b64_value c1) of
              (Some s0, Some s1) \<Rightarrow> Some [of_nat (s0 * 4 + s1 div 16)]
            | _ \<Rightarrow> None)
         else
           (case (b64_value c0, b64_value c1, b64_value c2) of
              (Some s0, Some s1, Some s2) \<Rightarrow>
                Some [of_nat (s0 * 4 + s1 div 16), of_nat (s1 mod 16 * 16 + s2 div 4)]
            | _ \<Rightarrow> None))
      else
        (case (b64_value c0, b64_value c1, b64_value c2, b64_value c3) of
           (Some s0, Some s1, Some s2, Some s3) \<Rightarrow>
             (case base64_decode rest of
                None \<Rightarrow> None
              | Some bs \<Rightarrow>
                  Some (of_nat (s0 * 4 + s1 div 16) # of_nat (s1 mod 16 * 16 + s2 div 4)
                        # of_nat (s2 mod 4 * 64 + s3) # bs))
         | _ \<Rightarrow> None))"
| "base64_decode _ = None"

definition data_uri_payload :: "string \<Rightarrow> string option" where
  "data_uri_payload uri =
     (let header = takeWhile (\<lambda>c. c \<noteq> CHR '','') uri;
          data = dropWhile (\<lambda>c. c \<noteq> CHR '','') uri
      in if prefix ''data:'' header \<and> suffix '';base64'' header \<and> data \<noteq> []
         then Some (tl data) else None)"

text \<open>
  What the handlers of the page do not decide: whether the browser can read a file, and
  what the imported server action \<open>analyzeKLSEReport\<close> answers (a result, or a thrown
  value).
\<close>

record environment =
  file_readable :: "js_file \<Rightarrow> bool"
  analyze :: "AnalyzeKLSEReportInput \<Rightarrow> thrown + AnalyzeKLSEReportOutput"

text \<open>
  \<open>fileToBase64\<close>: the promise resolves with \<open>reader.result\<close> on \<open>load\<close> and rejects
  with the event on \<open>error\<close>.
\<close>

definition fileToBase64 :: "environment \<Rightarrow> js_file \<Rightarrow> thrown + string" where
  "fileToBase64 env f =
     (if file_readable env f then Inr (readAsDataURL f) else Inl OtherThrown)"


section \<open>The page: submitting\<close>

definition msg_upload_report :: string where
  "msg_upload_report =
     [CHR 0xE8, CHR 0xAF, CHR 0xB7, CHR 0xE4, CHR 0xB8, CHR 0x8A, CHR 0xE4, CHR 0xBC, CHR 0xA0,
      CHR 0xE4, CHR 0xB8, CHR 0x80, CHR 0xE4, CHR 0xBB, CHR 0xBD, CHR 0xE5, CHR 0xAD, CHR 0xA3,
      CHR 0xE5, CHR 0xBA, CHR 0xA6, CHR 0xE6, CHR 0x8A, CHR 0xA5, CHR 0xE5, CHR 0x91, CHR 0x8A]
     @ '' PDF'' @ [CHR 0xE3, CHR 0x80, CHR 0x82]"

definition msg_unknown_error :: string where
  "msg_unknown_error =
     [CHR 0xE5, CHR 0x8F, CHR 0x91, CHR 0xE7, CHR 0x94, CHR 0x9F, CHR 0xE6, CHR 0x9C, CHR 0xAA,
      CHR 0xE7, CHR 0x9F, CHR 0xA5, CHR 0xE9, CHR 0x94, CHR 0x99, CHR 0xE8, CHR 0xAF, CHR 0xAF,
      CHR 0xE3, CHR 0x80, CHR 0x82]"

definition msg_analysis_failed :: string where
  "msg_analysis_failed =
     [CHR 0xE5, CHR 0x88, CHR 0x86, CHR 0xE6, CHR 0x9E, CHR 0x90, CHR 0xE5, CHR 0xA4, CHR 0xB1,
      CHR 0xE8, CHR 0xB4, CHR 0xA5, CHR 0xEF, CHR 0xBC, CHR 0x9A]"

definition toast_analysis_error :: toast_props where
  "toast_analysis_error =
     \<lparr>variant = ''destructive'',
      title = [CHR 0xE5, CHR 0x88, CHR 0x86, CHR 0xE6, CHR 0x9E, CHR 0x90, CHR 0xE5, CHR 0x87,
               CHR 0xBA, CHR 0xE9, CHR 0x94, CHR 0x99],
      description =
              [CHR 0xE6, CHR 0x97, CHR 0xA0, CHR 0xE6, CHR 0xB3, CHR 0x95, CHR 0xE5, CHR 0x88,
               CHR 0x86, CHR 0xE6, CHR 0x9E, CHR 0x90, CHR 0xE6, CHR 0x8A, CHR 0xA5, CHR 0xE5,
               CHR 0x91, CHR 0x8A, CHR 0xE3, CHR 0x80, CHR 0x82, CHR 0xE8, CHR 0xAF, CHR 0xB7,
               CHR 0xE6, CHR 0xA3, CHR 0x80, CHR 0xE6, CHR 0x9F, CHR 0xA5, CHR 0xE6, CHR 0x82,
               CHR 0xA8, CHR 0xE7, CHR 0x9A, CHR 0x84] @ '' API '' @
              [CHR 0xE5, CHR 0xAF, CHR 0x86, CHR 0xE9, CHR 0x92, CHR 0xA5, CHR 0xE5, CHR 0x92,
               CHR 0x8C, CHR 0xE6, CHR 0x96, CHR 0x87, CHR 0xE4, CHR 0xBB, CHR 0xB6, CHR 0xEF,
               CHR 0xBC, CHR 0x8C, CHR 0xE7, CHR 0x84, CHR 0xB6, CHR 0xE5, CHR 0x90, CHR 0x8E,
               CHR 0xE9, CHR 0x87, CHR 0x8D, CHR 0xE8, CHR 0xAF, CHR 0x95, CHR 0xE3, CHR 0x80,
               CHR 0x82]\<rparr>"

text \<open>
  The callback given to \<open>setInterval\<close> (its updater applied to the progress cell), and the
  timer: it fires the callback only while the interval has not been cleared.
\<close>

definition interval_callback :: "ui_state \<Rightarrow> ui_state" where
  "interval_callback st =
     (if progress st \<ge> 95 then st\<lparr>progressInterval := False\<rparr>
      else st\<lparr>progress := progress st + 5\<rparr>)"

definition timer_fires :: "ui_state \<Rightarrow> ui_state" where
  "timer_fires st = (if progressInterval st then interval_callback st else st)"

text \<open>
  \<open>onSubmit\<close> is asynchronous. \<open>onSubmit_start\<close> is its part before the first \<open>await\<close>;
  the submission then waits, with the file and the values its closure holds, while the
  timer fires; \<open>onSubmit_settle\<close> is the rest: the \<open>try\<close> block from the first
  \<open>await\<close> on, the \<open>catch\<close> clause and the \<open>finally\<close> clause. The result is the
  completion of the handler: \<open>Inr ()\<close> for a normal return, \<open>Inl\<close> for a thrown value
  that leaves it.
\<close>

definition onSubmit_start :: "form_values \<Rightarrow> ui_state \<Rightarrow> ui_state" where
  "onSubmit_start vals st =
     (case cur_file st of
        None \<Rightarrow> st\<lparr>error := Some msg_upload_report\<rparr>
      | Some f \<Rightarrow>
          st\<lparr>error := None, analysisResult := None, isLoading := True, progress := 0,
             progressInterval := True, pending := Some (f, vals)\<rparr>)"

definition onSubmit_try ::
  "environment \<Rightarrow> js_file \<Rightarrow> form_values \<Rightarrow> ui_state \<Rightarrow> (thrown + unit) \<times> ui_state"
where
  "onSubmit_try env f vals st =
     (case fileToBase64 env f of
        Inl err \<Rightarrow> (Inl err, st)
      | Inr uri \<Rightarrow>
          (let input = \<lparr>reportDataUri = uri, geminiModel = values_model vals,
                        apiKey = values_apiKey vals\<rparr>;
               st1 = st\<lparr>requests := requests st @ [input]\<rparr>
           in case analyze env input of
                Inl err \<Rightarrow> (Inl err, st1)
              | Inr result \<Rightarrow>
                  (Inr (), st1\<lparr>analysisResult := Some (blogPostHtml result),
                               progress := 100\<rparr>)))"

definition onSubmit_catch :: "thrown \<Rightarrow> ui_state \<Rightarrow> (thrown + unit) \<times> ui_state" where
  "onSubmit_catch err st =
     (let st1 = st\<lparr>console_errors := console_errors st @ [err]\<rparr>;
          errorMessage = (case err of ErrorObject m \<Rightarrow> m | OtherThrown \<Rightarrow> msg_unknown_error);
          st2 = st1\<lparr>error := Some (msg_analysis_failed @ errorMessage)\<rparr>
      in (Inr (), toast toast_analysis_error st2))"

definition onSubmit_finally :: "ui_state \<Rightarrow> ui_state" where
  "onSubmit_finally st = st\<lparr>progressInterval := False, isLoading := False\<rparr>"

definition onSubmit_settle :: "environment \<Rightarrow> ui_state \<Rightarrow> (thrown + unit) \<times> ui_state" where
  "onSubmit_settle env st =
     (case pending st of
        None \<Rightarrow> (Inr (), st)
      | Some (f, vals) \<Rightarrow>
          (let (r, st1) = onSubmit_try env f vals (st\<lparr>pending := None\<rparr>);
               (r', st2) = (case r of Inl err \<Rightarrow> onSubmit_catch err st1
                                    | Inr u \<Rightarrow> (Inr u, st1))
           in (r', onSubmit_finally st2)))"

text \<open>A whole run of \<open>onSubmit\<close>, the timer firing \<open>n\<close> times while it waits.\<close>

definition onSubmit ::
  "environment \<Rightarrow> nat \<Rightarrow> form_values \<Rightarrow> ui_state \<Rightarrow> (thrown + unit) \<times> ui_state"
where
  "onSubmit env n vals st =
     (let st1 = onSubmit_start vals st
      in if cur_file st = None then (Inr (), st1)
         else onSubmit_settle env ((timer_fires ^^ n) st1))"

text \<open>
  \<open>form.handleSubmit(onSubmit)\<close> with \<open>zodResolver(formSchema)\<close>: the values of the form
  are parsed with the schema; with issues they become the errors of the form and
  \<open>onSubmit\<close> is not called, otherwise \<open>onSubmit\<close> gets the values.
\<close>

definition values_js :: "form_values \<Rightarrow> jsvalue" where
  "values_js vals =
     JObject [(''apiKey'', JString (values_apiKey vals)),
              (''model'', JString (values_model vals))]"

definition zodResolver ::
  "(string \<times> zod_type) list \<Rightarrow> form_values \<Rightarrow> (string \<times> zod_issue) list + form_values"
where
  "zodResolver schema vals =
     (case zod_object_parse schema (values_js vals) of
        Inl issues \<Rightarrow> Inl issues
      | Inr _ \<Rightarrow> Inr vals)"

definition handleSubmit_start :: "ui_state \<Rightarrow> ui_state" where
  "handleSubmit_start st =
     (case zodResolver formSchema (form st) of
        Inl issues \<Rightarrow> st\<lparr>form_errors := issues\<rparr>
      | Inr vals \<Rightarrow> onSubmit_start vals (st\<lparr>form_errors := []\<rparr>))"

definition handleSubmit ::
  "environment \<Rightarrow> nat \<Rightarrow> ui_state \<Rightarrow> (thrown + unit) \<times> ui_state"
where
  "handleSubmit env n st =
     (case zodResolver formSchema (form st) of
        Inl issues \<Rightarrow> (Inr (), st\<lparr>form_errors := issues\<rparr>)
      | Inr vals \<Rightarrow> onSubmit env n vals (st\<lparr>form_errors := []\<rparr>))"


section \<open>The page: what is rendered\<close>

text \<open>
  The three returns of the component: the loading card with the progress, the result
  card with the HTML given to \<open>dangerouslySetInnerHTML\<close>, and the form with the selected
  file and the error alert (shown when \<open>error\<close> is truthy).
\<close>

datatype view =
    LoadingView int
  | ResultView string
  | FormView "js_file option" "string option"

definition form_view :: "ui_state \<Rightarrow> view" where
  "form_view st =
     FormView (cur_file st) (if truthy (error st) then error st else None)"

definition render :: "ui_state \<Rightarrow> view" where
  "render st =
     (if isLoading st then LoadingView (progress st)
      else case analysisResult st of
             None \<Rightarrow> form_view st
           | Some html \<Rightarrow> if html \<noteq> [] then ResultView html else form_view st)"

fun is_form :: "view \<Rightarrow> bool" where
  "is_form (FormView f e) = True"
| "is_form _ = False"

fun is_result :: "view \<Rightarrow> bool" where
  "is_result (ResultView h) = True"
| "is_result _ = False"

text \<open>
  The states the page can be in: it starts in \<open>initial_state\<close>; the controls of the form
  are there in the form view only and the reset button in the result view only; the timer
  fires while its interval is set; a waiting submission settles, with any environment.
\<close>

inductive reachable :: "ui_state \<Rightarrow> bool" where
  mount: "reachable initial_state"
| select: "reachable st \<Longrightarrow> is_form (render st) \<Longrightarrow> reachable (handleFileSelect f st)"
| remove: "reachable st \<Longrightarrow> is_form (render st) \<Longrightarrow> cur_file st \<noteq> None
           \<Longrightarrow> reachable (removeFile st)"
| edit: "reachable st \<Longrightarrow> is_form (render st) \<Longrightarrow> reachable (st\<lparr>form := vals\<rparr>)"
| submit: "reachable st \<Longrightarrow> is_form (render st) \<Longrightarrow> reachable (handleSubmit_start st)"
| tick: "reachable st \<Longrightarrow> progressInterval st \<Longrightarrow> reachable (interval_callback st)"
| settle: "reachable st \<Longrightarrow> pending st \<noteq> None \<Longrightarrow> reachable (snd (onSubmit_settle env st))"
| reset: "reachable st \<Longrightarrow> is_result (render st) \<Longrightarrow> reachable (resetState st)"


text \<open>
  What every reachable state satisfies: the progress is a multiple of 5 between 0 and
  100, it is at most 95 while the loading view is shown, and a submission waits and its
  interval is set only while the loading view is shown. A submission starts from the
  form view, so no interval is set when it starts: one flag for the interval is enough.
\<close>

definition progress_inv :: "ui_state \<Rightarrow> bool" where
  "progress_inv st \<longleftrightarrow>
     0 \<le> progress st \<and> progress st \<le> 100 \<and> 5 dvd progress st
     \<and> (isLoading st \<longrightarrow> progress st \<le> 95)
     \<and> (pending st \<noteq> None \<longrightarrow> isLoading st)
     \<and> (progressInterval st \<longrightarrow> isLoading st)"


section \<open>The analysis flow\<close>

definition AnalyzeKLSEReportInputSchema :: "(string \<times> zod_type) list" where
  "AnalyzeKLSEReportInputSchema =
     [(''reportDataUri'', ZString),
      (''geminiModel'', ZEnum gemini_models),
      (''apiKey'', ZString)]"

definition AnalyzeKLSEReportOutputSchema :: "(string \<times> zod_type) list" where
  "AnalyzeKLSEReportOutputSchema = [(''blogPostHtml'', ZString)]"

text \<open>An input of the declared type, as the object that reaches the server action.\<close>

definition input_js :: "AnalyzeKLSEReportInput \<Rightarrow> jsvalue" where
  "input_js i =
     JObject [(''reportDataUri'', JString (reportDataUri i)),
              (''geminiModel'', JString (geminiModel i)),
              (''apiKey'', JString (apiKey i))]"

definition parse_input ::
  "jsvalue \<Rightarrow> (string \<times> zod_issue) list + AnalyzeKLSEReportInput"
where
  "parse_input v =
     (case zod_object_parse AnalyzeKLSEReportInputSchema v of
        Inl issues \<Rightarrow> Inl issues
      | Inr props \<Rightarrow>
          (case (js_get props ''reportDataUri'', js_get props ''geminiModel'',
                 js_get props ''apiKey'') of
             (JString u, JString m, JString k) \<Rightarrow>
               Inr \<lparr>reportDataUri = u, geminiModel = m, apiKey = k\<rparr>
           | _ \<Rightarrow> Inl [([], invalid_type)]))"

definition parse_output ::
  "jsvalue \<Rightarrow> (string \<times> zod_issue) list + AnalyzeKLSEReportOutput"
where
  "parse_output v =
     (case zod_object_parse AnalyzeKLSEReportOutputSchema v of
        Inl issues \<Rightarrow> Inl issues
      | Inr props \<Rightarrow>
          (case js_get props ''blogPostHtml'' of
             JString h \<Rightarrow> Inr \<lparr>blogPostHtml = h\<rparr>
           | _ \<Rightarrow> Inl [([], invalid_type)]))"

text \<open>
  The server process: its environment variables, and the calls it has sent to the hosted
  model. A call is recorded with the model identifier it names, the credential the
  process holds when the call is made, and the input of the prompt.
\<close>

record outbound_call =
  call_model :: string
  call_credential :: "string option"
  call_input :: AnalyzeKLSEReportInput

record server_state =
  process_env :: "string \<rightharpoonup> string"
  outbound_calls :: "outbound_call list"

text \<open>
  The hosted model behind the genkit instance \<open>ai\<close> (\<open>@/ai/genkit\<close> is not among the
  sources): a parameter, answering a call with the output of the prompt (a structured
  value, or \<open>null\<close>) or with a thrown value.
\<close>

type_synonym provider = "outbound_call \<Rightarrow> thrown + jsvalue"

definition analyzeKLSEReportPrompt ::
  "provider \<Rightarrow> AnalyzeKLSEReportInput \<Rightarrow> string \<Rightarrow> server_state
   \<Rightarrow> (thrown + jsvalue) \<times> server_state"
where
  "analyzeKLSEReportPrompt prov input model_id s =
     (let c = \<lparr>call_model = model_id,
               call_credential = process_env s ''GOOGLE_GENAI_API_KEY'',
               call_input = input\<rparr>
      in (prov c, s\<lparr>outbound_calls := outbound_calls s @ [c]\<rparr>))"

text \<open>The function given to \<open>ai.defineFlow\<close>.\<close>

definition flow_body ::
  "provider \<Rightarrow> AnalyzeKLSEReportInput \<Rightarrow> server_state \<Rightarrow> (thrown + jsvalue) \<times> server_state"
where
  "flow_body prov input s =
     (let s1 = s\<lparr>process_env := (process_env s)(''GOOGLE_GENAI_API_KEY'' \<mapsto> apiKey input)\<rparr>
      in analyzeKLSEReportPrompt prov
           \<lparr>reportDataUri = reportDataUri input, geminiModel = geminiModel input,
            apiKey = apiKey input\<rparr>
           (''googleai/'' @ geminiModel input) s1)"

text \<open>
  The flow: the input is parsed with the input schema before the function runs, and what
  the function returns with the output schema.
\<close>

datatype flow_error =
    InputRejected "(string \<times> zod_issue) list"
  | ProviderFailed thrown
  | OutputRejected "(string \<times> zod_issue) list"

definition analyzeKLSEReportFlow ::
  "provider \<Rightarrow> jsvalue \<Rightarrow> server_state \<Rightarrow> (flow_error + AnalyzeKLSEReportOutput) \<times> server_state"
where
  "analyzeKLSEReportFlow prov v s =
     (case parse_input v of
        Inl issues \<Rightarrow> (Inl (InputRejected issues), s)
      | Inr input \<Rightarrow>
          (let (r, s1) = flow_body prov input s
           in case r of
                Inl err \<Rightarrow> (Inl (ProviderFailed err), s1)
              | Inr out \<Rightarrow>
                  (case parse_output out of
                     Inl issues \<Rightarrow> (Inl (OutputRejected issues), s1)
                   | Inr result \<Rightarrow> (Inr result, s1))))"

definition analyzeKLSEReport ::
  "provider \<Rightarrow> jsvalue \<Rightarrow> server_state \<Rightarrow> (flow_error + AnalyzeKLSEReportOutput) \<times> server_state"
where
  "analyzeKLSEReport prov input s = analyzeKLSEReportFlow prov input s"


section \<open>Concrete inputs\<close>

definition example_pdf :: js_file where
  "example_pdf =
     \<lparr>file_name = ''q1.pdf'', file_type = ''application/pdf'',
      file_bytes = [0x25, 0x50, 0x44, 0x46, 0x2D]\<rparr>"

definition example_txt :: js_file where
  "example_txt =
     \<lparr>file_name = ''notes.txt'', file_type = ''text/plain'', file_bytes = [0x68, 0x69]\<rparr>"

definition example_values :: form_values where
  "example_values = \<lparr>values_apiKey = ''k-123'', values_model = ''gemini-2.5-pro''\<rparr>"

text \<open>An environment whose server action answers every request with the HTML \<open>h\<close>.\<close>

definition env_answering :: "string \<Rightarrow> environment" where
  "env_answering h =
     \<lparr>file_readable = (\<lambda>f. True), analyze = (\<lambda>i. Inr \<lparr>blogPostHtml = h\<rparr>)\<rparr>"

text \<open>An environment whose server action throws \<open>new Error(m)\<close> at every request.\<close>

definition env_failing :: "string \<Rightarrow> environment" where
  "env_failing m =
     \<lparr>file_readable = (\<lambda>f. True), analyze = (\<lambda>i. Inl (ErrorObject m))\<rparr>"


text \<open>
  The page with \<open>example_pdf\<close> selected and \<open>example_values\<close> typed in, and the same
  page after the submit button is pressed, waiting for the answer.
\<close>

definition example_ready :: ui_state where
  "example_ready = (handleFileSelect example_pdf initial_state)\<lparr>form := example_values\<rparr>"

definition example_waiting :: ui_state where
  "example_waiting = handleSubmit_start example_ready"

text \<open>A hosted model that answers every call with a well-formed output.\<close>

definition example_provider :: provider where
  "example_provider = (\<lambda>c. Inr (JObject [(''blogPostHtml'', JString ''<h1>Q1</h1>'')]))"

text \<open>A server process that still holds the credential of an earlier request.\<close>

definition example_server :: server_state where
  "example_server =
     \<lparr>process_env = [''GOOGLE_GENAI_API_KEY'' \<mapsto> ''old-key''], outbound_calls = []\<rparr>"

definition example_input :: AnalyzeKLSEReportInput where
  "example_input =
     \<lparr>reportDataUri = readAsDataURL example_pdf, geminiModel = ''gemini-2.5-pro'',
      apiKey = ''k-123''\<rparr>"

text \<open>
  A request to the server action whose \<open>reportDataUri\<close> is no data URI and whose
  \<open>apiKey\<close> is the empty string.
\<close>

definition unchecked_input :: jsvalue where
  "unchecked_input =
     JObject [(''reportDataUri'', JString ''https://example.com/q1.pdf''),
              (''geminiModel'', JString ''gemini-2.5-flash''),
              (''apiKey'', JString '''')]"


section \<open>Lemmas: the timer and the submission\<close>

lemma timer_fires_frame:
  "timer_fires st = st\<lparr>progress := progress (timer_fires st),
                        progressInterval := progressInterval (timer_fires st)\<rparr>"
  by (simp add: timer_fires_def interval_callback_def)

lemma timer_fires_pow_frame:
  "(timer_fires ^^ n) st = st\<lparr>progress := progress ((timer_fires ^^ n) st),
                               progressInterval := progressInterval ((timer_fires ^^ n) st)\<rparr>"
proof (induction n)
  case 0
  show ?case by simp
next
  case (Suc n)
  have "(timer_fires ^^ Suc n) st = timer_fires ((timer_fires ^^ n) st)" by simp
  also have "\<dots> = ((timer_fires ^^ n) st)
                      \<lparr>progress := progress ((timer_fires ^^ Suc n) st),
                       progressInterval := progressInterval ((timer_fires ^^ Suc n) st)\<rparr>"
    using timer_fires_frame [of "(timer_fires ^^ n) st"] by simp
  also have "\<dots> = st\<lparr>progress := progress ((timer_fires ^^ Suc n) st),
                       progressInterval := progressInterval ((timer_fires ^^ Suc n) st)\<rparr>"
    by (subst Suc.IH) simp
  finally show ?case .
qed

lemma timer_fires_pow_fields [simp]:
  "cur_file ((timer_fires ^^ n) st) = cur_file st"
  "isLoading ((timer_fires ^^ n) st) = isLoading st"
  "analysisResult ((timer_fires ^^ n) st) = analysisResult st"
  "error ((timer_fires ^^ n) st) = error st"
  "fileInputRef ((timer_fires ^^ n) st) = fileInputRef st"
  "form ((timer_fires ^^ n) st) = form st"
  "form_errors ((timer_fires ^^ n) st) = form_errors st"
  "toasts ((timer_fires ^^ n) st) = toasts st"
  "console_errors ((timer_fires ^^ n) st) = console_errors st"
  "requests ((timer_fires ^^ n) st) = requests st"
  "pending ((timer_fires ^^ n) st) = pending st"
  by (subst timer_fires_pow_frame, simp)+

lemma timer_fires_progress:
  "progress (timer_fires s) =
     (if progressInterval s \<and> progress s < 95 then progress s + 5 else progress s)"
  by (simp add: timer_fires_def interval_callback_def)

lemma timer_fires_interval:
  "progressInterval (timer_fires s) = (progressInterval s \<and> progress s < 95)"
  by (auto simp add: timer_fires_def interval_callback_def)

lemma timer_fires_pow_progress:
  assumes "progressInterval st" "5 dvd progress st" "progress st \<le> 95"
  shows "progress ((timer_fires ^^ k) st) = min (progress st + 5 * int k) 95
         \<and> (\<not> progressInterval ((timer_fires ^^ k) st) \<longrightarrow> 100 \<le> progress st + 5 * int k)"
proof (induction k)
  case 0
  show ?case using assms by simp
next
  case (Suc k)
  from assms(2) obtain q where q: "progress st = 5 * q" by (auto simp: dvd_def)
  define p where "p = progress ((timer_fires ^^ k) st)"
  define b where "b = progressInterval ((timer_fires ^^ k) st)"
  have IH: "p = min (5 * q + 5 * int k) 95" "\<not> b \<longrightarrow> 100 \<le> 5 * q + 5 * int k"
    using Suc.IH q by (simp_all add: p_def b_def)
  have step: "(timer_fires ^^ Suc k) st = timer_fires ((timer_fires ^^ k) st)" by simp
  have P: "progress ((timer_fires ^^ Suc k) st) = (if b \<and> p < 95 then p + 5 else p)"
    unfolding step timer_fires_progress p_def b_def ..
  have B: "progressInterval ((timer_fires ^^ Suc k) st) = (b \<and> p < 95)"
    unfolding step timer_fires_interval p_def b_def ..
  have five: "5 * q + 5 * int k < 95 \<Longrightarrow> 5 * q + 5 * int k \<le> 90"
    by presburger
  show ?case
    unfolding P B q using IH five by (auto simp: min_def)
qed

lemma render_result_not_loading: "is_result (render st) \<Longrightarrow> \<not> isLoading st"
  by (auto simp: render_def split: if_splits)

lemma onSubmit_start_inv: "progress_inv st \<Longrightarrow> progress_inv (onSubmit_start vals st)"
  by (auto simp: progress_inv_def onSubmit_start_def split: option.splits)

lemma handleSubmit_start_inv: "progress_inv st \<Longrightarrow> progress_inv (handleSubmit_start st)"
proof -
  assume a: "progress_inv st"
  have b: "progress_inv (st\<lparr>form_errors := x\<rparr>)" for x
    using a by (simp add: progress_inv_def)
  show ?thesis
    by (auto simp: handleSubmit_start_def b onSubmit_start_inv split: sum.splits)
qed

lemma interval_callback_inv: "progress_inv st \<Longrightarrow> progress_inv (interval_callback st)"
proof -
  assume a: "progress_inv st"
  have five: "5 dvd progress st \<Longrightarrow> progress st < 95 \<Longrightarrow> progress st \<le> 90"
    by presburger
  show ?thesis
    using a five by (auto simp: progress_inv_def interval_callback_def)
qed

lemma onSubmit_settle_inv: "progress_inv st \<Longrightarrow> progress_inv (snd (onSubmit_settle env st))"
  by (auto simp: progress_inv_def onSubmit_settle_def onSubmit_try_def onSubmit_catch_def
        onSubmit_finally_def toast_def Let_def split: option.splits sum.splits prod.splits)

lemma reachable_progress_inv: "reachable st \<Longrightarrow> progress_inv st"
proof (induction rule: reachable.induct)
  case mount
  show ?case by (simp add: progress_inv_def initial_state_def)
next
  case (select st f)
  then show ?case by (auto simp: progress_inv_def handleFileSelect_def toast_def)
next
  case (remove st)
  then show ?case by (auto simp: progress_inv_def removeFile_def)
next
  case (edit st vals)
  then show ?case by (auto simp: progress_inv_def)
next
  case (submit st)
  then show ?case by (simp add: handleSubmit_start_inv)
next
  case (tick st)
  then show ?case by (simp add: interval_callback_inv)
next
  case (settle st env)
  then show ?case by (simp add: onSubmit_settle_inv)
next
  case (reset st)
  from reset.hyps(2) have "\<not> isLoading st" by (rule render_result_not_loading)
  with reset.IH show ?case by (auto simp: progress_inv_def resetState_def)
qed

lemma onSubmit_start_progress:
  "cur_file st \<noteq> None \<Longrightarrow>
     progress ((timer_fires ^^ k) (onSubmit_start vals st)) = min (5 * int k) 95"
proof -
  assume "cur_file st \<noteq> None"
  then have a: "progressInterval (onSubmit_start vals st)" "progress (onSubmit_start vals st) = 0"
    by (auto simp: onSubmit_start_def)
  show ?thesis using timer_fires_pow_progress [of "onSubmit_start vals st" k] a by simp
qed

lemma parse_input_iff:
  "parse_input v = Inr i \<longleftrightarrow>
     (\<exists>props. v = JObject props
        \<and> js_get props ''reportDataUri'' = JString (reportDataUri i)
        \<and> js_get props ''geminiModel'' = JString (geminiModel i)
        \<and> geminiModel i \<in> set gemini_models
        \<and> js_get props ''apiKey'' = JString (apiKey i))"
proof (cases v)
  case (JObject props)
  show ?thesis
    unfolding JObject
    apply (cases "js_get props ''reportDataUri''"; cases "js_get props ''geminiModel''";
           cases "js_get props ''apiKey''")
    apply (auto simp: parse_input_def zod_object_parse_def AnalyzeKLSEReportInputSchema_def
             Let_def js_get_def)
    done
qed (simp_all add: parse_input_def zod_object_parse_def)

lemma parse_input_example: "parse_input (input_js example_input) = Inr example_input"
  by (simp add: parse_input_iff input_js_def example_input_def js_get_def gemini_models_def)

lemma parse_input_unchecked:
  "parse_input unchecked_input
     = Inr \<lparr>reportDataUri = ''https://example.com/q1.pdf'', geminiModel = ''gemini-2.5-flash'',
            apiKey = ''''\<rparr>"
  by (simp add: parse_input_iff unchecked_input_def js_get_def gemini_models_def)

lemma onSubmit_rejects:
  assumes "cur_file st = Some f"
    and "file_readable env f"
    and "analyze env \<lparr>reportDataUri = readAsDataURL f, geminiModel = values_model vals,
                       apiKey = values_apiKey vals\<rparr> = Inl err"
  shows "fst (onSubmit env n vals st) = Inr ()"
    and "error (snd (onSubmit env n vals st))
           = Some (msg_analysis_failed
                   @ (case err of ErrorObject m \<Rightarrow> m | OtherThrown \<Rightarrow> msg_unknown_error))"
    and "toasts (snd (onSubmit env n vals st)) = toasts st @ [toast_analysis_error]"
    and "console_errors (snd (onSubmit env n vals st)) = console_errors st @ [err]"
    and "requests (snd (onSubmit env n vals st))
           = requests st @ [\<lparr>reportDataUri = readAsDataURL f, geminiModel = values_model vals,
                             apiKey = values_apiKey vals\<rparr>]"
    and "analysisResult (snd (onSubmit env n vals st)) = None"
    and "isLoading (snd (onSubmit env n vals st)) = False"
    and "progressInterval (snd (onSubmit env n vals st)) = False"
    and "pending (snd (onSubmit env n vals st)) = None"
    and "cur_file (snd (onSubmit env n vals st)) = Some f"
  using assms
  by (simp_all add: onSubmit_def onSubmit_start_def onSubmit_settle_def onSubmit_try_def
        fileToBase64_def onSubmit_catch_def onSubmit_finally_def toast_def Let_def)

lemma onSubmit_resolves:
  assumes "cur_file st = Some f"
    and "file_readable env f"
    and "analyze env \<lparr>reportDataUri = readAsDataURL f, geminiModel = values_model vals,
                       apiKey = values_apiKey vals\<rparr> = Inr result"
  shows "fst (onSubmit env n vals st) = Inr ()"
    and "analysisResult (snd (onSubmit env n vals st)) = Some (blogPostHtml result)"
    and "progress (snd (onSubmit env n vals st)) = 100"
    and "isLoading (snd (onSubmit env n vals st)) = False"
    and "error (snd (onSubmit env n vals st)) = None"
    and "toasts (snd (onSubmit env n vals st)) = toasts st"
    and "requests (snd (onSubmit env n vals st))
           = requests st @ [\<lparr>reportDataUri = readAsDataURL f, geminiModel = values_model vals,
                             apiKey = values_apiKey vals\<rparr>]"
    and "cur_file (snd (onSubmit env n vals st)) = Some f"
  using assms
  by (simp_all add: onSubmit_def onSubmit_start_def onSubmit_settle_def onSubmit_try_def
        fileToBase64_def onSubmit_finally_def Let_def)

lemma zodResolver_formSchema:
  "zodResolver formSchema vals =
     (if values_apiKey vals = [] \<or> values_model vals \<notin> set gemini_models
      then Inl (map (Pair ''apiKey'')
                  (zod_check (ZStringMin 1 msg_api_key_required) (JString (values_apiKey vals)))
                @ map (Pair ''model'')
                    (zod_check (ZEnum gemini_models) (JString (values_model vals))))
      else Inr vals)"
  by (auto simp: zodResolver_def zod_object_parse_def formSchema_def values_js_def js_get_def
        Let_def)

lemma onSubmit_requests:
  "requests (snd (onSubmit env n vals st)) = requests st
   \<or> (\<exists>f. cur_file st = Some f
        \<and> requests (snd (onSubmit env n vals st))
            = requests st @ [\<lparr>reportDataUri = readAsDataURL f, geminiModel = values_model vals,
                              apiKey = values_apiKey vals\<rparr>])"
  by (auto simp: onSubmit_def onSubmit_start_def onSubmit_settle_def onSubmit_try_def
        fileToBase64_def onSubmit_catch_def onSubmit_finally_def toast_def Let_def
        split: option.splits sum.splits)

lemma handleSubmit_requests:
  assumes "requests (snd (handleSubmit env n st)) \<noteq> requests st"
  shows "\<exists>f. cur_file st = Some f
          \<and> requests (snd (handleSubmit env n st))
              = requests st @ [\<lparr>reportDataUri = readAsDataURL f,
                                geminiModel = values_model (form st),
                                apiKey = values_apiKey (form st)\<rparr>]
          \<and> values_apiKey (form st) \<noteq> []
          \<and> values_model (form st) \<in> set gemini_models"
proof (cases "values_apiKey (form st) = [] \<or> values_model (form st) \<notin> set gemini_models")
  case True
  then have "requests (snd (handleSubmit env n st)) = requests st"
    by (simp add: handleSubmit_def zodResolver_formSchema)
  with assms show ?thesis by simp
next
  case False
  then have eq: "handleSubmit env n st = onSubmit env n (form st) (st\<lparr>form_errors := []\<rparr>)"
    by (simp add: handleSubmit_def zodResolver_formSchema)
  from onSubmit_requests [of env n "form st" "st\<lparr>form_errors := []\<rparr>"] assms False
  show ?thesis unfolding eq by auto
qed


section \<open>Lemmas: base64\<close>

lemma b64_value_char: "n < 64 \<Longrightarrow> b64_value (b64_char n) = Some n"
  by (auto simp: b64_value_def b64_char_def Let_def)

lemma b64_char_not_pad: "n < 64 \<Longrightarrow> b64_char n \<noteq> CHR ''=''"
proof
  assume n: "n < 64" and eq: "b64_char n = CHR ''=''"
  have "b64_value (b64_char n) = Some n" using n by (rule b64_value_char)
  moreover have "b64_value (CHR ''='') = None" by (simp add: b64_value_def)
  ultimately show False using eq by simp
qed

lemma sextets_bounds:
  fixes x y z :: nat
  shows "x < 256 \<Longrightarrow> x div 4 < 64"
    "y < 256 \<Longrightarrow> x mod 4 * 16 + y div 16 < 64"
    "x mod 4 * 16 < 64"
    "z < 256 \<Longrightarrow> y mod 16 * 4 + z div 64 < 64"
    "y mod 16 * 4 < 64"
    "z mod 64 < 64"
  by auto

lemma sextets_join:
  fixes x y z :: nat
  shows 
    "y < 256 \<Longrightarrow> x div 4 * 4 + (x mod 4 * 16 + y div 16) div 16 = x"
    "x div 4 * 4 + (x mod 4 * 16) div 16 = x"
    "y < 256 \<Longrightarrow> z < 256 \<Longrightarrow> (x mod 4 * 16 + y div 16) mod 16 * 16 + (y mod 16 * 4 + z div 64) div 4 = y"
    "y < 256 \<Longrightarrow> (x mod 4 * 16 + y div 16) mod 16 * 16 + (y mod 16 * 4) div 4 = y"
    "z < 256 \<Longrightarrow> (y mod 16 * 4 + z div 64) mod 4 * 64 + z mod 64 = z"
  by auto

lemma unat_byte: "unat (a :: byte) < 256"
  using unsigned_less [of a, where 'a = nat] by simp



lemma decode_group:
  assumes "s0 < 64" "s1 < 64" "s2 < 64" "s3 < 64"
  shows "base64_decode (b64_char s0 # b64_char s1 # b64_char s2 # b64_char s3 # rest) =
           (case base64_decode rest of
              None \<Rightarrow> None
            | Some bs \<Rightarrow>
                Some (of_nat (s0 * 4 + s1 div 16) # of_nat (s1 mod 16 * 16 + s2 div 4)
                      # of_nat (s2 mod 4 * 64 + s3) # bs))"
  using assms
  by (simp add: b64_value_char b64_char_not_pad del: of_nat_add of_nat_mult)

lemma decode_pad1:
  assumes "s0 < 64" "s1 < 64" "s2 < 64"
  shows "base64_decode [b64_char s0, b64_char s1, b64_char s2, CHR ''=''] =
           Some [of_nat (s0 * 4 + s1 div 16), of_nat (s1 mod 16 * 16 + s2 div 4)]"
  using assms
  by (simp add: b64_value_char b64_char_not_pad del: of_nat_add of_nat_mult)

lemma decode_pad2:
  assumes "s0 < 64" "s1 < 64"
  shows "base64_decode [b64_char s0, b64_char s1, CHR ''='', CHR ''=''] =
           Some [of_nat (s0 * 4 + s1 div 16)]"
  using assms
  by (simp add: b64_value_char del: of_nat_add of_nat_mult)

lemma base64_roundtrip: "base64_decode (base64_encode bs) = Some bs"
proof (induction bs rule: base64_encode.induct)
  case 1
  show ?case by simp
next
  case (2 a)
  define x where "x = unat a"
  have X: "x < 256" unfolding x_def by (rule unat_byte)
  have "base64_decode (base64_encode [a]) =
          Some [of_nat (x div 4 * 4 + (x mod 4 * 16) div 16)]"
    unfolding base64_encode.simps x_def [symmetric]
    by (rule decode_pad2) (simp_all add: sextets_bounds X)
  also have "x div 4 * 4 + (x mod 4 * 16) div 16 = x"
    by (rule sextets_join)
  finally show ?case by (simp add: x_def)
next
  case (3 a b)
  define x where "x = unat a"
  define y where "y = unat b"
  have X: "x < 256" and Y: "y < 256" unfolding x_def y_def by (rule unat_byte)+
  have "base64_decode (base64_encode [a, b]) =
          Some [of_nat (x div 4 * 4 + (x mod 4 * 16 + y div 16) div 16),
                of_nat ((x mod 4 * 16 + y div 16) mod 16 * 16 + (y mod 16 * 4) div 4)]"
    unfolding base64_encode.simps x_def [symmetric] y_def [symmetric]
    by (rule decode_pad1) (simp_all add: sextets_bounds X Y)
  also have "x div 4 * 4 + (x mod 4 * 16 + y div 16) div 16 = x"
    using Y by (rule sextets_join)
  also have "(x mod 4 * 16 + y div 16) mod 16 * 16 + (y mod 16 * 4) div 4 = y"
    using Y by (rule sextets_join)
  finally show ?case by (simp add: x_def y_def)
next
  case (4 a b c rest)
  define x where "x = unat a"
  define y where "y = unat b"
  define z where "z = unat c"
  have X: "x < 256" and Y: "y < 256" and Z: "z < 256"
    unfolding x_def y_def z_def by (rule unat_byte)+
  have "base64_decode (base64_encode (a # b # c # rest)) =
          (case base64_decode (base64_encode rest) of
             None \<Rightarrow> None
           | Some bs \<Rightarrow>
               Some (of_nat (x div 4 * 4 + (x mod 4 * 16 + y div 16) div 16)
                     # of_nat ((x mod 4 * 16 + y div 16) mod 16 * 16
                               + (y mod 16 * 4 + z div 64) div 4)
                     # of_nat ((y mod 16 * 4 + z div 64) mod 4 * 64 + z mod 64) # bs))"
    unfolding base64_encode.simps x_def [symmetric] y_def [symmetric] z_def [symmetric]
      append.simps
    by (rule decode_group) (simp_all add: sextets_bounds X Y Z)
  also have "x div 4 * 4 + (x mod 4 * 16 + y div 16) div 16 = x"
    using Y by (rule sextets_join)
  also have "(x mod 4 * 16 + y div 16) mod 16 * 16 + (y mod 16 * 4 + z div 64) div 4 = y"
    using Y Z by (rule sextets_join)
  also have "(y mod 16 * 4 + z div 64) mod 4 * 64 + z mod 64 = z"
    using Z by (rule sextets_join)
  finally show ?case by (simp add: "4.IH" x_def y_def z_def)
qed

lemma data_uri_payload_pdf:
  "data_uri_payload (''data:application/pdf;base64,'' @ p) = Some p"
  by (simp add: data_uri_payload_def suffix_def)


section \<open>Lemmas: the concrete page\<close>

lemma example_ready_fields:
  "cur_file example_ready = Some example_pdf"
  "form example_ready = example_values"
  "isLoading example_ready = False"
  "analysisResult example_ready = None"
  "requests example_ready = []"
  "toasts example_ready = []"
  by (simp_all add: example_ready_def handleFileSelect_def example_pdf_def initial_state_def)

lemma example_waiting_eq:
  "example_waiting =
     example_ready\<lparr>form_errors := [], error := None, analysisResult := None, isLoading := True,
                    progress := 0, progressInterval := True,
                    pending := Some (example_pdf, example_values)\<rparr>"
  by (simp add: example_waiting_def handleSubmit_start_def zodResolver_formSchema
        example_ready_fields onSubmit_start_def example_values_def gemini_models_def)

lemma reachable_example_waiting: "reachable example_waiting"
proof -
  have r0: "reachable initial_state" by (rule reachable.mount)
  have "is_form (render initial_state)"
    by (simp add: render_def form_view_def initial_state_def)
  with r0 have r1: "reachable (handleFileSelect example_pdf initial_state)"
    by (rule reachable.select)
  have "is_form (render (handleFileSelect example_pdf initial_state))"
    by (simp add: render_def form_view_def initial_state_def handleFileSelect_def example_pdf_def)
  with r1 have "reachable ((handleFileSelect example_pdf initial_state)\<lparr>form := example_values\<rparr>)"
    by (rule reachable.edit)
  then have r2: "reachable example_ready" by (simp add: example_ready_def)
  have "is_form (render example_ready)"
    by (simp add: render_def form_view_def example_ready_fields)
  with r2 have "reachable (handleSubmit_start example_ready)"
    by (rule reachable.submit)
  then show ?thesis by (simp add: example_waiting_def)
qed

lemma readAsDataURL_example:
  "readAsDataURL example_pdf = ''data:application/pdf;base64,JVBERi0=''"
  by code_simp


section \<open>Selecting a file\<close>

text \<open>
  Claim C1, as the code has it: for every selected file whose declared type is not
  \<open>application/pdf\<close>, \<open>handleFileSelect\<close> fires one toast of the destructive variant
  and sets the selection to \<open>null\<close>, whatever was selected before; nothing else of the
  state changes.
\<close>

theorem handleFileSelect_rejects_non_pdf:
  "file_type f \<noteq> ''application/pdf'' \<Longrightarrow>
     handleFileSelect f st = st\<lparr>toasts := toasts st @ [toast_invalid_type], cur_file := None\<rparr>
     \<and> variant toast_invalid_type = ''destructive''"
  by (simp add: handleFileSelect_def toast_def toast_invalid_type_def)

text \<open>Claim C1, the theorem at a text file dropped on the page with a PDF selected.\<close>

theorem handleFileSelect_rejects_non_pdf_witness:
  "file_type example_txt \<noteq> ''application/pdf'' \<and>
   handleFileSelect example_txt (handleFileSelect example_pdf initial_state)
     = (handleFileSelect example_pdf initial_state)
         \<lparr>toasts := [toast_invalid_type], cur_file := None\<rparr>"
  using handleFileSelect_rejects_non_pdf
          [of example_txt "handleFileSelect example_pdf initial_state"]
  by (simp add: example_txt_def example_pdf_def handleFileSelect_def initial_state_def)

text \<open>
  Claim C1 as the spec states it (the selection is left unchanged) fails: with a PDF
  selected, selecting a text file leaves no file selected.
\<close>

theorem handleFileSelect_non_pdf_clears_selection:
  "cur_file (handleFileSelect example_pdf initial_state) = Some example_pdf
   \<and> file_type example_txt \<noteq> ''application/pdf''
   \<and> cur_file (handleFileSelect example_txt (handleFileSelect example_pdf initial_state))
       \<noteq> cur_file (handleFileSelect example_pdf initial_state)"
  by (simp add: handleFileSelect_def example_txt_def example_pdf_def toast_def)

text \<open>
  Claim C10: selecting a file of type \<open>application/pdf\<close> sets the inline error to
  \<open>null\<close> and stores the file as the selection, with no toast; a rejected selection
  leaves the inline error as it was and signals through exactly one toast (nothing is
  written to the console or to the errors of the form).
\<close>

theorem handleFileSelect_inline_error:
  "(file_type f = ''application/pdf'' \<longrightarrow>
      error (handleFileSelect f st) = None
      \<and> cur_file (handleFileSelect f st) = Some f
      \<and> toasts (handleFileSelect f st) = toasts st)
   \<and> (file_type f \<noteq> ''application/pdf'' \<longrightarrow>
      error (handleFileSelect f st) = error st
      \<and> toasts (handleFileSelect f st) = toasts st @ [toast_invalid_type]
      \<and> console_errors (handleFileSelect f st) = console_errors st
      \<and> form_errors (handleFileSelect f st) = form_errors st)"
  by (simp add: handleFileSelect_def toast_def)

text \<open>
  Claim C10, the theorem at a state that shows an inline error: a PDF clears it, a text
  file keeps it.
\<close>

theorem handleFileSelect_inline_error_witness:
  "file_type example_pdf = ''application/pdf''
   \<and> error (handleFileSelect example_pdf (initial_state\<lparr>error := Some msg_upload_report\<rparr>)) = None
   \<and> cur_file (handleFileSelect example_pdf (initial_state\<lparr>error := Some msg_upload_report\<rparr>))
       = Some example_pdf
   \<and> file_type example_txt \<noteq> ''application/pdf''
   \<and> error (handleFileSelect example_txt (initial_state\<lparr>error := Some msg_upload_report\<rparr>))
       = Some msg_upload_report
   \<and> toasts (handleFileSelect example_txt (initial_state\<lparr>error := Some msg_upload_report\<rparr>))
       = [toast_invalid_type]"
  using handleFileSelect_inline_error
          [of example_pdf "initial_state\<lparr>error := Some msg_upload_report\<rparr>"]
        handleFileSelect_inline_error
          [of example_txt "initial_state\<lparr>error := Some msg_upload_report\<rparr>"]
  by (simp add: example_txt_def example_pdf_def initial_state_def)


section \<open>Resetting\<close>

text \<open>
  Claim C6: after \<open>resetState\<close>, whatever the state before, the file, the result and
  the error are \<open>null\<close>, the progress is 0, \<open>isLoading\<close> is false and the form holds its
  default values with no errors: each of these components has the value it has in the
  initial state.
\<close>

theorem resetState_restores_initial:
  "cur_file (resetState st) = None
   \<and> analysisResult (resetState st) = None
   \<and> error (resetState st) = None
   \<and> progress (resetState st) = 0
   \<and> isLoading (resetState st) = False
   \<and> form (resetState st) = \<lparr>values_apiKey = '''', values_model = ''gemini-2.5-flash''\<rparr>
   \<and> form_errors (resetState st) = []
   \<and> cur_file (resetState st) = cur_file initial_state
   \<and> analysisResult (resetState st) = analysisResult initial_state
   \<and> error (resetState st) = error initial_state
   \<and> progress (resetState st) = progress initial_state
   \<and> isLoading (resetState st) = isLoading initial_state
   \<and> form (resetState st) = form initial_state
   \<and> form_errors (resetState st) = form_errors initial_state"
  by (simp add: resetState_def initial_state_def defaultValues_def)

section \<open>Submitting\<close>

text \<open>
  Claim C5: when the file is read and the server action throws an \<open>Error\<close> with
  message \<open>m\<close>, \<open>onSubmit\<close> returns normally (the exception does not leave it), the
  error state is the fixed prefix followed by \<open>m\<close>, so it includes \<open>m\<close>, one toast
  of the destructive variant is fired, and the server action has been called exactly
  once (nothing is retried); the loading state and the timer are cleared, and the page
  renders the form with that error in its alert.
\<close>

theorem onSubmit_upstream_failure:
  assumes "cur_file st = Some f"
    and "file_readable env f"
    and "analyze env \<lparr>reportDataUri = readAsDataURL f, geminiModel = values_model vals,
                       apiKey = values_apiKey vals\<rparr> = Inl (ErrorObject m)"
  shows "fst (onSubmit env n vals st) = Inr ()
     \<and> error (snd (onSubmit env n vals st)) = Some (msg_analysis_failed @ m)
     \<and> sublist m (msg_analysis_failed @ m)
     \<and> toasts (snd (onSubmit env n vals st)) = toasts st @ [toast_analysis_error]
     \<and> variant toast_analysis_error = ''destructive''
     \<and> console_errors (snd (onSubmit env n vals st)) = console_errors st @ [ErrorObject m]
     \<and> requests (snd (onSubmit env n vals st))
         = requests st @ [\<lparr>reportDataUri = readAsDataURL f, geminiModel = values_model vals,
                           apiKey = values_apiKey vals\<rparr>]
     \<and> analysisResult (snd (onSubmit env n vals st)) = None
     \<and> isLoading (snd (onSubmit env n vals st)) = False
     \<and> progressInterval (snd (onSubmit env n vals st)) = False
     \<and> pending (snd (onSubmit env n vals st)) = None
     \<and> render (snd (onSubmit env n vals st)) = FormView (Some f) (Some (msg_analysis_failed @ m))"
proof -
  note r = onSubmit_rejects [OF assms, of n]
  have "msg_analysis_failed @ m \<noteq> []"
    by (simp add: msg_analysis_failed_def)
  then have "render (snd (onSubmit env n vals st))
               = FormView (Some f) (Some (msg_analysis_failed @ m))"
    using r by (simp add: render_def form_view_def)
  then show ?thesis
    using r by (simp add: toast_analysis_error_def)
qed

text \<open>
  Claim C5, the theorem at the server action throwing \<open>new Error("Unauthorized")\<close>
  after the timer has fired three times.
\<close>

theorem onSubmit_upstream_failure_witness:
  "cur_file example_ready = Some example_pdf
   \<and> file_readable (env_failing ''Unauthorized'') example_pdf
   \<and> analyze (env_failing ''Unauthorized'')
        \<lparr>reportDataUri = readAsDataURL example_pdf, geminiModel = values_model example_values,
         apiKey = values_apiKey example_values\<rparr> = Inl (ErrorObject ''Unauthorized'')
   \<and> fst (onSubmit (env_failing ''Unauthorized'') 3 example_values example_ready) = Inr ()
   \<and> error (snd (onSubmit (env_failing ''Unauthorized'') 3 example_values example_ready))
       = Some (msg_analysis_failed @ ''Unauthorized'')
   \<and> toasts (snd (onSubmit (env_failing ''Unauthorized'') 3 example_values example_ready))
       = [toast_analysis_error]
   \<and> length (requests (snd (onSubmit (env_failing ''Unauthorized'') 3 example_values
                               example_ready))) = 1"
proof -
  have h1: "cur_file example_ready = Some example_pdf"
    by (simp add: example_ready_def handleFileSelect_def example_pdf_def)
  have h2: "file_readable (env_failing ''Unauthorized'') example_pdf"
    by (simp add: env_failing_def)
  have h3: "analyze (env_failing ''Unauthorized'')
              \<lparr>reportDataUri = readAsDataURL example_pdf,
               geminiModel = values_model example_values,
               apiKey = values_apiKey example_values\<rparr> = Inl (ErrorObject ''Unauthorized'')"
    by (simp add: env_failing_def)
  have e: "toasts example_ready = []" "requests example_ready = []"
    by (simp_all add: example_ready_def handleFileSelect_def example_pdf_def initial_state_def)
  show ?thesis
    using h1 h2 h3 onSubmit_upstream_failure [OF h1 h2 h3, of 3]
    by (simp add: e)
qed

text \<open>
  Claim C9, as the code has it: when the file is read and the server action answers
  \<open>{blogPostHtml: h}\<close>, \<open>onSubmit\<close> sets \<open>analysisResult\<close> to exactly \<open>h\<close>, and when
  \<open>h\<close> is not the empty string the page renders the result view with exactly \<open>h\<close> as
  its HTML.
\<close>

theorem onSubmit_success_displays_html:
  assumes "cur_file st = Some f"
    and "file_readable env f"
    and "analyze env \<lparr>reportDataUri = readAsDataURL f, geminiModel = values_model vals,
                       apiKey = values_apiKey vals\<rparr> = Inr result"
  shows "fst (onSubmit env n vals st) = Inr ()
     \<and> analysisResult (snd (onSubmit env n vals st)) = Some (blogPostHtml result)
     \<and> (blogPostHtml result \<noteq> [] \<longrightarrow>
          render (snd (onSubmit env n vals st)) = ResultView (blogPostHtml result))"
  using onSubmit_resolves [OF assms, of n]
  by (simp add: render_def)

text \<open>Claim C9, the theorem at the answer \<open>{blogPostHtml: "<div>...</div>"}\<close>.\<close>

theorem onSubmit_success_displays_html_witness:
  "cur_file example_ready = Some example_pdf
   \<and> file_readable (env_answering ''<div>...</div>'') example_pdf
   \<and> analyze (env_answering ''<div>...</div>'')
        \<lparr>reportDataUri = readAsDataURL example_pdf, geminiModel = values_model example_values,
         apiKey = values_apiKey example_values\<rparr> = Inr \<lparr>blogPostHtml = ''<div>...</div>''\<rparr>
   \<and> ''<div>...</div>'' \<noteq> []
   \<and> analysisResult (snd (onSubmit (env_answering ''<div>...</div>'') 2 example_values
                             example_ready)) = Some ''<div>...</div>''
   \<and> render (snd (onSubmit (env_answering ''<div>...</div>'') 2 example_values example_ready))
       = ResultView ''<div>...</div>''"
proof -
  have h1: "cur_file example_ready = Some example_pdf"
    by (simp add: example_ready_def handleFileSelect_def example_pdf_def)
  have h2: "file_readable (env_answering ''<div>...</div>'') example_pdf"
    by (simp add: env_answering_def)
  have h3: "analyze (env_answering ''<div>...</div>'')
              \<lparr>reportDataUri = readAsDataURL example_pdf,
               geminiModel = values_model example_values,
               apiKey = values_apiKey example_values\<rparr> = Inr \<lparr>blogPostHtml = ''<div>...</div>''\<rparr>"
    by (simp add: env_answering_def)
  show ?thesis
    using h1 h2 h3 onSubmit_success_displays_html [OF h1 h2 h3, of 2]
    by simp
qed

text \<open>
  Claim C9 as the spec states it (for every successful response the string is rendered
  into the result view) fails at the answer \<open>{blogPostHtml: ""}\<close>: \<open>analysisResult\<close> is
  set to the empty string, which is falsy, and the page renders the form, not the result
  view.
\<close>

theorem onSubmit_empty_html_shows_form:
  "cur_file example_ready = Some example_pdf
   \<and> file_readable (env_answering '''') example_pdf
   \<and> analyze (env_answering '''')
        \<lparr>reportDataUri = readAsDataURL example_pdf, geminiModel = values_model example_values,
         apiKey = values_apiKey example_values\<rparr> = Inr \<lparr>blogPostHtml = ''''\<rparr>
   \<and> analysisResult (snd (onSubmit (env_answering '''') 0 example_values example_ready))
       = Some ''''
   \<and> render (snd (onSubmit (env_answering '''') 0 example_values example_ready))
       \<noteq> ResultView ''''
   \<and> render (snd (onSubmit (env_answering '''') 0 example_values example_ready))
       = FormView (Some example_pdf) None"
proof -
  have h1: "cur_file example_ready = Some example_pdf"
    by (simp add: example_ready_def handleFileSelect_def example_pdf_def)
  have h2: "file_readable (env_answering '''') example_pdf"
    by (simp add: env_answering_def)
  have h3: "analyze (env_answering '''')
              \<lparr>reportDataUri = readAsDataURL example_pdf,
               geminiModel = values_model example_values,
               apiKey = values_apiKey example_values\<rparr> = Inr \<lparr>blogPostHtml = ''''\<rparr>"
    by (simp add: env_answering_def)
  show ?thesis
    using h1 h2 h3 onSubmit_resolves [OF h1 h2 h3, of 0]
    by (simp add: render_def form_view_def)
qed

text \<open>
  Claim C8: when the API key field of the form is the empty string, \<open>handleSubmit\<close>
  does not call \<open>onSubmit\<close>: it returns with the state as it was but for the errors of
  the form, which carry the message of the schema at \<open>apiKey\<close>; no request is made and
  the loading state is not entered. The part of the submission before its first
  \<open>await\<close> gives the same state.
\<close>

theorem handleSubmit_empty_api_key_blocked:
  assumes "values_apiKey (form st) = []"
  shows "handleSubmit env n st =
           (Inr (), st\<lparr>form_errors := (''apiKey'', too_small msg_api_key_required)
              # map (Pair ''model'')
                  (zod_check (ZEnum gemini_models) (JString (values_model (form st))))\<rparr>)
     \<and> handleSubmit_start st = snd (handleSubmit env n st)
     \<and> requests (snd (handleSubmit env n st)) = requests st
     \<and> isLoading (snd (handleSubmit env n st)) = isLoading st
     \<and> pending (snd (handleSubmit env n st)) = pending st
     \<and> error (snd (handleSubmit env n st)) = error st
     \<and> analysisResult (snd (handleSubmit env n st)) = analysisResult st"
  using assms
  by (simp add: handleSubmit_def handleSubmit_start_def zodResolver_formSchema)

text \<open>
  Claim C8, the theorem at the page with a PDF selected and the form at its default
  values, whose API key is empty.
\<close>

theorem handleSubmit_empty_api_key_blocked_witness:
  "values_apiKey (form (handleFileSelect example_pdf initial_state)) = []
   \<and> handleSubmit (env_answering ''<div>...</div>'') 0 (handleFileSelect example_pdf initial_state)
       = (Inr (), (handleFileSelect example_pdf initial_state)
                    \<lparr>form_errors := [(''apiKey'', too_small msg_api_key_required)]\<rparr>)
   \<and> requests (snd (handleSubmit (env_answering ''<div>...</div>'') 0
                       (handleFileSelect example_pdf initial_state))) = []"
proof -
  have h: "values_apiKey (form (handleFileSelect example_pdf initial_state)) = []"
    by (simp add: handleFileSelect_def example_pdf_def initial_state_def defaultValues_def)
  have e: "values_model (form (handleFileSelect example_pdf initial_state)) = ''gemini-2.5-flash''"
    "requests (handleFileSelect example_pdf initial_state) = []"
    by (simp_all add: handleFileSelect_def example_pdf_def initial_state_def defaultValues_def)
  show ?thesis
    using h handleSubmit_empty_api_key_blocked
                [OF h, of "env_answering ''<div>...</div>''" 0]
    by (simp add: e gemini_models_def)
qed

section \<open>The simulated progress\<close>

text \<open>
  Claim C7: in every reachable state the progress is between 0 and 100, and at most 95
  while the loading view is shown or a submission waits for its answer. A submission
  with a file selected starts the progress at 0 with the timer set, and after the timer
  has fired \<open>k\<close> times the progress is \<open>min (5 * k) 95\<close>: each firing adds 5 while the
  progress is below 95 and nothing from then on. A successful answer sets the progress
  to 100. (The period of the timer, 500 ms, is not part of the model: firings are
  counted.)
\<close>

theorem progress_simulation_bounds:
  "(reachable st \<longrightarrow>
      0 \<le> progress st \<and> progress st \<le> 100
      \<and> (isLoading st \<or> pending st \<noteq> None \<longrightarrow> progress st \<le> 95))
   \<and> (cur_file st \<noteq> None \<longrightarrow>
        progress (onSubmit_start vals st) = 0
        \<and> progressInterval (onSubmit_start vals st)
        \<and> progress ((timer_fires ^^ k) (onSubmit_start vals st)) = min (5 * int k) 95)
   \<and> progress (timer_fires st)
       = (if progressInterval st \<and> progress st < 95 then progress st + 5 else progress st)
   \<and> (cur_file st = Some f \<and> file_readable env f
        \<and> analyze env \<lparr>reportDataUri = readAsDataURL f, geminiModel = values_model vals,
                         apiKey = values_apiKey vals\<rparr> = Inr result \<longrightarrow>
        progress (snd (onSubmit env k vals st)) = 100)"
proof (intro conjI impI)
  assume "reachable st"
  then have inv: "progress_inv st" by (rule reachable_progress_inv)
  from inv show "0 \<le> progress st" by (simp add: progress_inv_def)
  from inv show "progress st \<le> 100" by (simp add: progress_inv_def)
  assume "isLoading st \<or> pending st \<noteq> None"
  with inv show "progress st \<le> 95" by (auto simp: progress_inv_def)
next
  assume "cur_file st \<noteq> None"
  then show "progress (onSubmit_start vals st) = 0"
    by (auto simp: onSubmit_start_def)
next
  assume "cur_file st \<noteq> None"
  then show "progressInterval (onSubmit_start vals st)"
    by (auto simp: onSubmit_start_def)
next
  assume "cur_file st \<noteq> None"
  then show "progress ((timer_fires ^^ k) (onSubmit_start vals st)) = min (5 * int k) 95"
    by (rule onSubmit_start_progress)
next
  show "progress (timer_fires st)
          = (if progressInterval st \<and> progress st < 95 then progress st + 5 else progress st)"
    by (rule timer_fires_progress)
next
  assume "cur_file st = Some f \<and> file_readable env f
          \<and> analyze env \<lparr>reportDataUri = readAsDataURL f, geminiModel = values_model vals,
                           apiKey = values_apiKey vals\<rparr> = Inr result"
  then show "progress (snd (onSubmit env k vals st)) = 100"
    by (simp add: onSubmit_resolves(3))
qed

text \<open>
  Claim C7, the theorem at the page waiting for its answer: after one firing of the
  timer the progress is 5, after twenty-five firings it is 95, and the answer sets it to
  100.
\<close>

theorem progress_simulation_bounds_witness:
  "reachable (interval_callback example_waiting)
   \<and> isLoading (interval_callback example_waiting)
   \<and> progress (interval_callback example_waiting) = 5
   \<and> cur_file example_ready \<noteq> None
   \<and> progress ((timer_fires ^^ 25) (onSubmit_start example_values example_ready)) = 95
   \<and> cur_file example_ready = Some example_pdf
   \<and> file_readable (env_answering ''<div>...</div>'') example_pdf
   \<and> analyze (env_answering ''<div>...</div>'')
        \<lparr>reportDataUri = readAsDataURL example_pdf, geminiModel = values_model example_values,
         apiKey = values_apiKey example_values\<rparr> = Inr \<lparr>blogPostHtml = ''<div>...</div>''\<rparr>
   \<and> progress (snd (onSubmit (env_answering ''<div>...</div>'') 25 example_values
                        example_ready)) = 100"
proof -
  have "progressInterval example_waiting"
    by (subst example_waiting_eq) simp
  with reachable_example_waiting have r: "reachable (interval_callback example_waiting)"
    by (rule reachable.tick)
  have l: "isLoading (interval_callback example_waiting)"
    "progress (interval_callback example_waiting) = 5"
    by (subst example_waiting_eq, simp add: interval_callback_def)+
  have h1: "cur_file example_ready = Some example_pdf" by (rule example_ready_fields)
  have h2: "file_readable (env_answering ''<div>...</div>'') example_pdf"
    by (simp add: env_answering_def)
  have h3: "analyze (env_answering ''<div>...</div>'')
              \<lparr>reportDataUri = readAsDataURL example_pdf,
               geminiModel = values_model example_values,
               apiKey = values_apiKey example_values\<rparr> = Inr \<lparr>blogPostHtml = ''<div>...</div>''\<rparr>"
    by (simp add: env_answering_def)
  show ?thesis
    using r l h1 h2 h3
      progress_simulation_bounds [of "interval_callback example_waiting"]
      progress_simulation_bounds
        [of example_ready example_values 25 example_pdf "env_answering ''<div>...</div>''"
            "\<lparr>blogPostHtml = ''<div>...</div>''\<rparr>"]
    by simp
qed


section \<open>The analysis flow: credential and model\<close>

text \<open>
  Claim C3: for every call of the flow whose input the input schema accepts as
  \<open>{reportDataUri, geminiModel, apiKey}\<close>, exactly one call goes out to the hosted
  model; when it is made the environment variable \<open>GOOGLE_GENAI_API_KEY\<close> already holds
  the supplied \<open>apiKey\<close>, and it names the model \<open>googleai/\<close> followed by the supplied
  \<open>geminiModel\<close>. The variable still holds the key when the flow is done.
\<close>

theorem flow_sets_credential_then_calls_model:
  assumes "parse_input v = Inr i"
  shows "outbound_calls (snd (analyzeKLSEReport prov v s))
           = outbound_calls s @ [\<lparr>call_model = ''googleai/'' @ geminiModel i,
                                   call_credential = Some (apiKey i), call_input = i\<rparr>]
         \<and> process_env (snd (analyzeKLSEReport prov v s)) ''GOOGLE_GENAI_API_KEY''
             = Some (apiKey i)"
  using assms
  by (auto simp: analyzeKLSEReport_def analyzeKLSEReportFlow_def flow_body_def
        analyzeKLSEReportPrompt_def Let_def split: sum.splits prod.splits)

text \<open>
  Claim C3, the theorem at a server process that holds the key of an earlier request:
  the call is made with the new key.
\<close>

theorem flow_sets_credential_then_calls_model_witness:
  "parse_input (input_js example_input) = Inr example_input
   \<and> process_env example_server ''GOOGLE_GENAI_API_KEY'' = Some ''old-key''
   \<and> outbound_calls (snd (analyzeKLSEReport example_provider (input_js example_input)
                             example_server))
       = [\<lparr>call_model = ''googleai/gemini-2.5-pro'', call_credential = Some ''k-123'',
           call_input = example_input\<rparr>]
   \<and> process_env (snd (analyzeKLSEReport example_provider (input_js example_input)
                          example_server))
        ''GOOGLE_GENAI_API_KEY'' = Some ''k-123''"
proof -
  have h: "parse_input (input_js example_input) = Inr example_input"
    by (rule parse_input_example)
  have e: "outbound_calls example_server = []" "geminiModel example_input = ''gemini-2.5-pro''"
    "apiKey example_input = ''k-123''"
    "process_env example_server ''GOOGLE_GENAI_API_KEY'' = Some ''old-key''"
    by (simp_all add: example_server_def example_input_def)
  show ?thesis
    using h flow_sets_credential_then_calls_model [OF h, of example_provider example_server]
    by (simp add: e)
qed


section \<open>The invariant of the report input\<close>

text \<open>
  Claim C2, as the code has it: the input schema of the analysis operation accepts
  exactly the objects whose \<open>reportDataUri\<close> and \<open>apiKey\<close> are strings, of any content,
  and whose \<open>geminiModel\<close> is one of the two model names. The invariant is established
  by the page instead: whenever submitting the form sends a request, its
  \<open>reportDataUri\<close> is \<open>data:\<close>, the type of the selected file, \<open>;base64,\<close> and the
  base64 text of the file, its \<open>apiKey\<close> is not empty and its model is one of the two
  names.
\<close>

theorem input_invariant_established_by_page:
  "(parse_input v = Inr i \<longleftrightarrow>
      (\<exists>props. v = JObject props
         \<and> js_get props ''reportDataUri'' = JString (reportDataUri i)
         \<and> js_get props ''geminiModel'' = JString (geminiModel i)
         \<and> geminiModel i \<in> set gemini_models
         \<and> js_get props ''apiKey'' = JString (apiKey i)))
   \<and> (requests (snd (handleSubmit env n st)) \<noteq> requests st \<longrightarrow>
        (\<exists>f. cur_file st = Some f
           \<and> requests (snd (handleSubmit env n st))
               = requests st
                 @ [\<lparr>reportDataUri = ''data:'' @ file_type f @ '';base64,''
                                      @ base64_encode (file_bytes f),
                     geminiModel = values_model (form st),
                     apiKey = values_apiKey (form st)\<rparr>]
           \<and> values_apiKey (form st) \<noteq> []
           \<and> values_model (form st) \<in> set gemini_models))"
proof (intro conjI impI)
  show "parse_input v = Inr i \<longleftrightarrow>
      (\<exists>props. v = JObject props
         \<and> js_get props ''reportDataUri'' = JString (reportDataUri i)
         \<and> js_get props ''geminiModel'' = JString (geminiModel i)
         \<and> geminiModel i \<in> set gemini_models
         \<and> js_get props ''apiKey'' = JString (apiKey i))"
    by (rule parse_input_iff)
next
  assume "requests (snd (handleSubmit env n st)) \<noteq> requests st"
  from handleSubmit_requests [OF this]
  show "\<exists>f. cur_file st = Some f
           \<and> requests (snd (handleSubmit env n st))
               = requests st
                 @ [\<lparr>reportDataUri = ''data:'' @ file_type f @ '';base64,''
                                      @ base64_encode (file_bytes f),
                     geminiModel = values_model (form st),
                     apiKey = values_apiKey (form st)\<rparr>]
           \<and> values_apiKey (form st) \<noteq> []
           \<and> values_model (form st) \<in> set gemini_models"
    by (simp add: readAsDataURL_def)
qed

text \<open>
  Claim C2, the theorem at an object the schema accepts and at the page submitting
  \<open>example_pdf\<close> with the key \<open>k-123\<close>.
\<close>

theorem input_invariant_established_by_page_witness:
  "parse_input (input_js example_input) = Inr example_input
   \<and> requests (snd (handleSubmit (env_answering ''<div>...</div>'') 1 example_ready))
       \<noteq> requests example_ready
   \<and> requests (snd (handleSubmit (env_answering ''<div>...</div>'') 1 example_ready))
       = [\<lparr>reportDataUri = ''data:application/pdf;base64,JVBERi0='',
           geminiModel = ''gemini-2.5-pro'', apiKey = ''k-123''\<rparr>]"
proof -
  let ?env = "env_answering ''<div>...</div>''"
  have v: "handleSubmit ?env 1 example_ready
             = onSubmit ?env 1 example_values (example_ready\<lparr>form_errors := []\<rparr>)"
    by (simp add: handleSubmit_def zodResolver_formSchema example_ready_fields
          example_values_def gemini_models_def)
  have q: "requests (snd (handleSubmit ?env 1 example_ready))
             = [\<lparr>reportDataUri = readAsDataURL example_pdf,
                 geminiModel = values_model example_values,
                 apiKey = values_apiKey example_values\<rparr>]"
    unfolding v
    by (subst onSubmit_resolves(7) [where f = example_pdf
                                     and result = "\<lparr>blogPostHtml = ''<div>...</div>''\<rparr>"])
       (simp_all add: example_ready_fields env_answering_def)
  have h: "requests (snd (handleSubmit ?env 1 example_ready)) \<noteq> requests example_ready"
    unfolding q by (simp add: example_ready_fields)
  have u: "readAsDataURL example_pdf = ''data:application/pdf;base64,JVBERi0=''"
    by (rule readAsDataURL_example)
  show ?thesis
    using h q u
      input_invariant_established_by_page
        [of "input_js example_input" example_input ?env 1 example_ready]
    by (simp add: parse_input_example example_values_def)
qed

text \<open>
  Claim C2 as the spec states it (inputs violating the invariant are not accepted) fails:
  the operation accepts an input whose \<open>reportDataUri\<close> is an \<open>https:\<close> URL and whose
  \<open>apiKey\<close> is empty, sends it to the hosted model and returns the answer.
\<close>

theorem flow_accepts_unchecked_input:
  "parse_input unchecked_input
     = Inr \<lparr>reportDataUri = ''https://example.com/q1.pdf'', geminiModel = ''gemini-2.5-flash'',
            apiKey = ''''\<rparr>
   \<and> \<not> prefix ''data:'' ''https://example.com/q1.pdf''
   \<and> fst (analyzeKLSEReport example_provider unchecked_input example_server)
       = Inr \<lparr>blogPostHtml = ''<h1>Q1</h1>''\<rparr>
   \<and> length (outbound_calls (snd (analyzeKLSEReport example_provider unchecked_input
                                     example_server))) = 1"
  by (simp add: parse_input_unchecked
        analyzeKLSEReport_def analyzeKLSEReportFlow_def flow_body_def
        analyzeKLSEReportPrompt_def Let_def example_provider_def example_server_def
        parse_output_def zod_object_parse_def AnalyzeKLSEReportOutputSchema_def js_get_def)


section \<open>Encoding the file\<close>

text \<open>
  Claim C4: for every file of type \<open>application/pdf\<close> that the browser can read,
  \<open>fileToBase64\<close> resolves with a string that starts with \<open>data:\<close>, names the type and
  the base64 encoding, and whose payload, the text after \<open>;base64,\<close>, decodes to exactly
  the bytes of the file.
\<close>

theorem fileToBase64_round_trip:
  assumes "file_type f = ''application/pdf''"
    and "file_readable env f"
  shows "\<exists>uri payload.
           fileToBase64 env f = Inr uri
           \<and> prefix ''data:'' uri
           \<and> uri = ''data:application/pdf;base64,'' @ payload
           \<and> data_uri_payload uri = Some payload
           \<and> base64_decode payload = Some (file_bytes f)"
proof -
  let ?p = "base64_encode (file_bytes f)"
  let ?uri = "''data:application/pdf;base64,'' @ ?p"
  have "fileToBase64 env f = Inr ?uri"
    using assms by (simp add: fileToBase64_def readAsDataURL_def)
  moreover have "prefix ''data:'' ?uri" by simp
  moreover have "data_uri_payload ?uri = Some ?p" by (rule data_uri_payload_pdf)
  moreover have "base64_decode ?p = Some (file_bytes f)" by (rule base64_roundtrip)
  ultimately show ?thesis by blast
qed

text \<open>Claim C4, the theorem at a file of five bytes, \<open>%PDF-\<close>.\<close>

theorem fileToBase64_round_trip_witness:
  "file_type example_pdf = ''application/pdf''
   \<and> file_readable (env_answering ''<div>...</div>'') example_pdf
   \<and> fileToBase64 (env_answering ''<div>...</div>'') example_pdf
       = Inr ''data:application/pdf;base64,JVBERi0=''
   \<and> (\<exists>uri payload.
         fileToBase64 (env_answering ''<div>...</div>'') example_pdf = Inr uri
         \<and> prefix ''data:'' uri
         \<and> uri = ''data:application/pdf;base64,'' @ payload
         \<and> data_uri_payload uri = Some payload
         \<and> base64_decode payload = Some [0x25, 0x50, 0x44, 0x46, 0x2D])"
proof -
  have h1: "file_type example_pdf = ''application/pdf''" by (simp add: example_pdf_def)
  have h2: "file_readable (env_answering ''<div>...</div>'') example_pdf"
    by (simp add: env_answering_def)
  have u: "fileToBase64 (env_answering ''<div>...</div>'') example_pdf
             = Inr ''data:application/pdf;base64,JVBERi0=''"
    by (simp add: fileToBase64_def env_answering_def readAsDataURL_example)
  have b: "file_bytes example_pdf = [0x25, 0x50, 0x44, 0x46, 0x2D]"
    by (simp add: example_pdf_def)
  show ?thesis
    using h1 h2 u fileToBase64_round_trip [OF h1 h2] unfolding b
    by simp
qed

end
